theory Spec2Isabelle
  imports Complex_Main "HOL-Library.AList" "HOL-Library.Multiset" "HOL-Library.Sublist" "HOL-Library.List_Lexorder"
begin

text \<open>
  A model of \<open>app.py\<close>, the salary dashboard: the loader \<open>carregar_dados\<close> (schema check,
  coercion, text sanitization), the filter \<open>df_filtrado\<close> and the aggregates shown on the
  page. What belongs to pandas (the two numeric coercions, the text of a float, the mean of
  a float column) is taken as a parameter, so that every theorem holds for the library's
  own float arithmetic, whatever its rounding.
\<close>

section \<open>Strings and cells\<close>

text \<open>
  A Python \<open>str\<close> is a sequence of Unicode code points, and \<open>len\<close>, slicing and
  comparison work on code points. A string is therefore a list of code points; \<open>u\<close>
  turns an ASCII literal into one. Lists of naturals are ordered lexicographically
  (a proper prefix is smaller), which is Python's order on \<open>str\<close>.
\<close>

type_synonym ustr = "nat list"

definition u :: "string \<Rightarrow> ustr" where
  "u s = map of_char s"

text \<open>
  A cell of a table as \<open>pandas.read_csv\<close> leaves it: an integer, a float, a boolean,
  a string, or the missing value NaN. The type \<open>'f\<close> stands for the values of
  \<open>float64\<close> other than NaN; NaN is a constructor of its own.
\<close>

datatype 'f cell = CInt int | CFloat 'f | CBool bool | CStr ustr | CNaN

type_synonym 'f coluna = "'f cell list"

text \<open>A DataFrame, column by column, in the order of its header.\<close>

type_synonym 'f dataframe = "(ustr \<times> 'f coluna) list"

datatype dtype = Int64 | Object | Float64

text \<open>
  The exceptions of the loader. \<open>ValueError_colunas_ausentes\<close> is the
  \<open>ValueError\<close> of line 48, whose message prints the set of missing columns;
  \<open>ErroPandas\<close> is any exception raised inside the library (by \<open>read_csv\<close> or
  \<open>astype\<close>); \<open>KeyError\<close> is the lookup of a column that the table lacks.
\<close>

datatype erro =
    ValueError_colunas_ausentes "ustr set"
  | ErroPandas ustr
  | KeyError ustr
  | IndexError

text \<open>
  What the model takes from the library as it is: the two coercions of a whole column
  (\<open>astype("int64")\<close>, \<open>astype("float64")\<close>, which raise or return the new column)
  and Python's \<open>str\<close> of a float.
\<close>

record 'f pandas =
  astype_int64 :: "'f coluna \<Rightarrow> erro + 'f coluna"
  astype_float64 :: "'f coluna \<Rightarrow> erro + 'f coluna"
  str_float :: "'f \<Rightarrow> ustr"

section \<open>Constants\<close>

definition COLUNAS_ESPERADAS :: "(ustr \<times> dtype) list" where
  "COLUNAS_ESPERADAS =
    [(u ''ano'', Int64),
     (u ''senioridade'', Object),
     (u ''contrato'', Object),
     (u ''tamanho_empresa'', Object),
     (u ''cargo'', Object),
     (u ''usd'', Float64),
     (u ''remoto'', Object),
     (u ''residencia_iso3'', Object)]"

definition colunas_texto :: "ustr list" where
  "colunas_texto =
    [u ''senioridade'', u ''contrato'', u ''tamanho_empresa'',
     u ''cargo'', u ''remoto'', u ''residencia_iso3'']"

definition MAX_LINHAS_TABELA :: nat where
  "MAX_LINHAS_TABELA = 1000"

section \<open>Text sanitization\<close>

text \<open>Decimal digits of a natural number, as \<open>str\<close> prints an \<open>int\<close>.\<close>

function digitos :: "nat \<Rightarrow> ustr" where
  "digitos n = (if n < 10 then [48 + n] else digitos (n div 10) @ [48 + n mod 10])"
  by pat_completeness auto
termination
  by (relation "measure (\<lambda>n. n)") auto

definition str_int :: "int \<Rightarrow> ustr" where
  "str_int i = (if i < 0 then 45 # digitos (nat (- i)) else digitos (nat i))"

text \<open>
  \<open>.astype(str)\<close> on a column of dtype object applies \<open>str\<close> to every element; the
  missing value prints as \<open>nan\<close>.
\<close>

fun astype_str :: "'f pandas \<Rightarrow> 'f cell \<Rightarrow> ustr" where
  "astype_str P (CInt i) = str_int i"
| "astype_str P (CFloat x) = str_float P x"
| "astype_str P (CBool b) = (if b then u ''True'' else u ''False'')"
| "astype_str P (CStr s) = s"
| "astype_str P CNaN = u ''nan''"

text \<open>\<open>.str.slice(0, 100)\<close>: the first 100 code points.\<close>

definition str_slice :: "nat \<Rightarrow> nat \<Rightarrow> ustr \<Rightarrow> ustr" where
  "str_slice a b s = drop a (take b s)"

text \<open>
  \<open>.str.replace(r"[<>]", "", regex=True)\<close>: every less-than sign (code point 60) and
  every greater-than sign (code point 62) is removed.
\<close>

definition str_replace_angulos :: "ustr \<Rightarrow> ustr" where
  "str_replace_angulos s = filter (\<lambda>c. c \<noteq> 60 \<and> c \<noteq> 62) s"

text \<open>
  The code points that \<open>str.strip()\<close> removes: those for which \<open>str.isspace\<close> holds.
\<close>

definition isspace :: "nat \<Rightarrow> bool" where
  "isspace c \<longleftrightarrow>
     (9 \<le> c \<and> c \<le> 13) \<or> (28 \<le> c \<and> c \<le> 32) \<or> c = 133 \<or> c = 160 \<or> c = 5760 \<or>
     (8192 \<le> c \<and> c \<le> 8202) \<or> c = 8232 \<or> c = 8233 \<or> c = 8239 \<or> c = 8287 \<or>
     c = 12288"

definition str_strip :: "ustr \<Rightarrow> ustr" where
  "str_strip s = rev (dropWhile isspace (rev (dropWhile isspace s)))"

text \<open>One value of a text column through the chain of lines 61 to 65.\<close>

definition sanitizar_valor :: "'f pandas \<Rightarrow> 'f cell \<Rightarrow> 'f cell" where
  "sanitizar_valor P v =
     CStr (str_strip (str_replace_angulos (str_slice 0 100 (astype_str P v))))"

section \<open>The loader\<close>

text \<open>\<open>df[coluna]\<close> and \<open>df[coluna] = c\<close>.\<close>

definition getitem :: "'f dataframe \<Rightarrow> ustr \<Rightarrow> erro + 'f coluna" where
  "getitem df coluna =
     (case map_of df coluna of None \<Rightarrow> Inl (KeyError coluna) | Some c \<Rightarrow> Inr c)"

definition setitem :: "'f dataframe \<Rightarrow> ustr \<Rightarrow> 'f coluna \<Rightarrow> 'f dataframe" where
  "setitem df coluna c = AList.update coluna c df"

definition astype :: "'f pandas \<Rightarrow> dtype \<Rightarrow> 'f coluna \<Rightarrow> erro + 'f coluna" where
  "astype P tipo c =
     (case tipo of
        Object \<Rightarrow> Inr c
      | Int64 \<Rightarrow> astype_int64 P c
      | Float64 \<Rightarrow> astype_float64 P c)"

text \<open>The loop of lines 50 and 51 over the items of \<open>COLUNAS_ESPERADAS\<close>.\<close>

fun converter_tipos ::
  "'f pandas \<Rightarrow> (ustr \<times> dtype) list \<Rightarrow> 'f dataframe \<Rightarrow> erro + 'f dataframe" where
  "converter_tipos P [] df = Inr df"
| "converter_tipos P ((coluna, tipo) # resto) df =
     (case getitem df coluna of
        Inl e \<Rightarrow> Inl e
      | Inr c \<Rightarrow>
          (case astype P tipo c of
             Inl e \<Rightarrow> Inl e
           | Inr c' \<Rightarrow> converter_tipos P resto (setitem df coluna c')))"

text \<open>The loop of lines 59 to 66 over \<open>colunas_texto\<close>.\<close>

fun sanitizar_texto :: "'f pandas \<Rightarrow> ustr list \<Rightarrow> 'f dataframe \<Rightarrow> erro + 'f dataframe" where
  "sanitizar_texto P [] df = Inr df"
| "sanitizar_texto P (col # resto) df =
     (case getitem df col of
        Inl e \<Rightarrow> Inl e
      | Inr c \<Rightarrow> sanitizar_texto P resto (setitem df col (map (sanitizar_valor P) c)))"

text \<open>
  \<open>carregar_dados\<close>. Its argument is what \<open>pd.read_csv(DATASET_URL)\<close> gave: an
  exception or the parsed table. Every exception of the body is caught at line 70,
  shown, and \<open>st.stop()\<close> ends the run: the result \<open>Inl e\<close> is that halt, with the
  exception shown; \<open>Inr df\<close> is the table returned at line 68.
\<close>

definition carregar_dados :: "'f pandas \<Rightarrow> erro + 'f dataframe \<Rightarrow> erro + 'f dataframe" where
  "carregar_dados P lido =
     (case lido of
        Inl e \<Rightarrow> Inl e
      | Inr df \<Rightarrow>
          (let colunas_faltantes = set (map fst COLUNAS_ESPERADAS) - set (map fst df)
           in if colunas_faltantes \<noteq> {} then Inl (ValueError_colunas_ausentes colunas_faltantes)
              else (case converter_tipos P COLUNAS_ESPERADAS df of
                      Inl e \<Rightarrow> Inl e
                    | Inr df' \<Rightarrow> sanitizar_texto P colunas_texto df')))"

section \<open>The loaded table, row by row\<close>

text \<open>
  After a successful load the eight expected columns exist, \<open>ano\<close> is int64, \<open>usd\<close> is
  float64 and the six text columns hold strings. The filter and the aggregates read the
  table row by row, so from here on the Dataset is the list of its rows, in order. A row is
  a record of the eight expected fields; the functions below accept any extension of it,
  so the other columns of a table can travel in the extension. The type of \<open>usd\<close> is
  that of the float cells, the floats other than NaN: a table with a missing salary has
  no rows in this model (\<open>linhas\<close> below gives \<open>None\<close>). Where the order of salaries is
  used (the maximum, \<open>nlargest\<close>, \<open>sort_values\<close>) it is a linear order.
\<close>

record 'f registro =
  ano :: int
  senioridade :: ustr
  contrato :: ustr
  tamanho_empresa :: ustr
  cargo :: ustr
  usd :: 'f
  remoto :: ustr
  residencia_iso3 :: ustr

text \<open>
  The rows of a loaded table: row \<open>i\<close> takes cell \<open>i\<close> of each expected column, and
  is defined when every cell has the type that its column has after the load.
\<close>

definition celula :: "'f dataframe \<Rightarrow> ustr \<Rightarrow> nat \<Rightarrow> 'f cell option" where
  "celula df coluna i =
     (case map_of df coluna of
        None \<Rightarrow> None
      | Some c \<Rightarrow> if i < length c then Some (c ! i) else None)"

fun cell_int :: "'f cell option \<Rightarrow> int option" where
  "cell_int (Some (CInt i)) = Some i"
| "cell_int _ = None"

fun cell_float :: "'f cell option \<Rightarrow> 'f option" where
  "cell_float (Some (CFloat x)) = Some x"
| "cell_float _ = None"

fun cell_str :: "'f cell option \<Rightarrow> ustr option" where
  "cell_str (Some (CStr s)) = Some s"
| "cell_str _ = None"

definition linha :: "'f dataframe \<Rightarrow> nat \<Rightarrow> 'f registro option" where
  "linha df i =
     Option.bind (cell_int (celula df (u ''ano'') i)) (\<lambda>a.
     Option.bind (cell_str (celula df (u ''senioridade'') i)) (\<lambda>s.
     Option.bind (cell_str (celula df (u ''contrato'') i)) (\<lambda>c.
     Option.bind (cell_str (celula df (u ''tamanho_empresa'') i)) (\<lambda>t.
     Option.bind (cell_str (celula df (u ''cargo'') i)) (\<lambda>g.
     Option.bind (cell_float (celula df (u ''usd'') i)) (\<lambda>x.
     Option.bind (cell_str (celula df (u ''remoto'') i)) (\<lambda>r.
     Option.bind (cell_str (celula df (u ''residencia_iso3'') i)) (\<lambda>p.
       Some \<lparr>ano = a, senioridade = s, contrato = c, tamanho_empresa = t, cargo = g,
             usd = x, remoto = r, residencia_iso3 = p\<rparr>))))))))"

definition linhas :: "'f dataframe \<Rightarrow> 'f registro list option" where
  "linhas df =
     (case map_of df (u ''ano'') of
        None \<Rightarrow> None
      | Some c \<Rightarrow> those (map (linha df) [0..<length c]))"

section \<open>The filter\<close>

text \<open>\<open>Series.isin(values)\<close>, value by value.\<close>

definition isin :: "'a \<Rightarrow> 'a list \<Rightarrow> bool" where
  "isin v valores \<longleftrightarrow> v \<in> set valores"

text \<open>
  Lines 104 to 109: the rows whose four masks all hold, in the order of \<open>df\<close>. The four
  selections are the lists that the sidebar's multiselect widgets return.
\<close>

definition df_filtrado ::
  "('f, 'z) registro_scheme list \<Rightarrow> int list \<Rightarrow> ustr list \<Rightarrow> ustr list \<Rightarrow> ustr list \<Rightarrow>
     ('f, 'z) registro_scheme list" where
  "df_filtrado df anos_sel senioridades_sel contratos_sel tamanhos_sel =
     filter (\<lambda>r. isin (ano r) anos_sel \<and>
                  isin (senioridade r) senioridades_sel \<and>
                  isin (contrato r) contratos_sel \<and>
                  isin (tamanho_empresa r) tamanhos_sel) df"

text \<open>Line 218: the table shown is the head of the view.\<close>

definition tabela_detalhada :: "('f, 'z) registro_scheme list \<Rightarrow> ('f, 'z) registro_scheme list" where
  "tabela_detalhada df = take MAX_LINHAS_TABELA df"

section \<open>The aggregates\<close>

text \<open>
  \<open>Series.mode()\<close>: the most frequent values, sorted. \<open>.iloc[0]\<close> then takes the least
  of them, and raises \<open>IndexError\<close> on an empty result.
\<close>

definition mode :: "ustr list \<Rightarrow> ustr list" where
  "mode xs =
     (let ks = sort (remdups xs)
      in filter (\<lambda>k. list_all (\<lambda>k'. count_list xs k' \<le> count_list xs k) ks) ks)"

record 'f kpis =
  salario_medio :: 'f
  salario_max :: 'f
  total :: int
  cargo_freq :: ustr

text \<open>
  Lines 125 to 132. \<open>mean\<close> is \<open>Series.mean\<close> on a float column. In the other branch the
  three numbers are Python's \<open>0\<close> and the role is the em dash, code point 8212.
\<close>

definition metricas ::
  "('f list \<Rightarrow> 'f) \<Rightarrow> ('f :: {linorder, zero}, 'z) registro_scheme list \<Rightarrow> erro + 'f kpis" where
  "metricas mean df =
     (if df \<noteq> [] then
        (case mode (map cargo df) of
           [] \<Rightarrow> Inl IndexError
         | m # _ \<Rightarrow>
             Inr \<lparr>salario_medio = mean (map usd df),
                  salario_max = Max (set (map usd df)),
                  total = int (length df),
                  cargo_freq = m\<rparr>)
      else Inr \<lparr>salario_medio = 0, salario_max = 0, total = 0, cargo_freq = [8212]\<rparr>)"

text \<open>
  \<open>df.groupby(chave)[valor].mean()\<close>: one entry per distinct key, keys sorted, each with
  the mean of the values of its rows.
\<close>

definition groupby_mean ::
  "('f list \<Rightarrow> 'f) \<Rightarrow> ('r \<Rightarrow> ustr) \<Rightarrow> ('r \<Rightarrow> 'f) \<Rightarrow> 'r list \<Rightarrow> (ustr \<times> 'f) list" where
  "groupby_mean mean chave valor df =
     map (\<lambda>k. (k, mean (map valor (filter (\<lambda>r. chave r = k) df)))) (sort (remdups (map chave df)))"

text \<open>
  \<open>Series.nlargest(n)\<close>, with \<open>keep="first"\<close>: the first \<open>n\<close> entries in decreasing
  order of value, equal values in their order in the series. \<open>Series.sort_values()\<close>:
  increasing order of value. Which of two entries of equal value comes first after
  \<open>sort_values\<close> is the library's choice; here they keep their order, and no property
  below depends on it.
\<close>

definition nlargest :: "nat \<Rightarrow> ('k \<times> 'f :: linorder) list \<Rightarrow> ('k \<times> 'f) list" where
  "nlargest n s = take n (rev (sort_key snd (rev s)))"

definition sort_values :: "('k \<times> 'f :: linorder) list \<Rightarrow> ('k \<times> 'f) list" where
  "sort_values s = sort_key snd s"

text \<open>
  Lines 150 to 157. \<open>reset_index\<close> turns the series into a table of two columns, the list
  of pairs here. With an empty view \<open>top_cargos\<close> is never assigned: \<open>None\<close>.
\<close>

definition top_cargos ::
  "('f list \<Rightarrow> 'f) \<Rightarrow> ('f :: linorder, 'z) registro_scheme list \<Rightarrow> (ustr \<times> 'f) list option" where
  "top_cargos mean df =
     (if df \<noteq> [] then Some (sort_values (nlargest 10 (groupby_mean mean cargo usd df)))
      else None)"

text \<open>
  Lines 183 to 185: \<open>value_counts\<close>, the distinct values in order of first appearance
  with their counts, then sorted by decreasing count.
\<close>

definition value_counts :: "'a list \<Rightarrow> ('a \<times> nat) list" where
  "value_counts xs =
     rev (sort_key snd (rev (map (\<lambda>k. (k, count_list xs k)) (rev (remdups (rev xs))))))"

definition remoto_contagem :: "('f, 'z) registro_scheme list \<Rightarrow> (ustr \<times> nat) list option" where
  "remoto_contagem df = (if df \<noteq> [] then Some (value_counts (map remoto df)) else None)"

text \<open>Lines 197 to 203.\<close>

definition media_pais ::
  "('f list \<Rightarrow> 'f) \<Rightarrow> ('f, 'z) registro_scheme list \<Rightarrow> (ustr \<times> 'f) list option" where
  "media_pais mean df =
     (let df_ds = filter (\<lambda>r. cargo r = u ''Data Scientist'') df
      in if df_ds \<noteq> [] then Some (groupby_mean mean residencia_iso3 usd df_ds) else None)"

section \<open>Example data\<close>

text \<open>
  A small CSV as \<open>read_csv\<close> would parse it, with a library instance for it: floats with
  whole values, written as integers, so that \<open>str\<close> of a float is the integer's digits
  followed by \<open>.0\<close>.
\<close>

definition exemplo_int64 :: "int coluna \<Rightarrow> erro + int coluna" where
  "exemplo_int64 c =
     (if list_all (\<lambda>v. case v of CInt i \<Rightarrow> True | _ \<Rightarrow> False) c then Inr c
      else Inl (ErroPandas (u ''int64'')))"

fun exemplo_float :: "int cell \<Rightarrow> int cell option" where
  "exemplo_float (CInt i) = Some (CFloat i)"
| "exemplo_float (CFloat x) = Some (CFloat x)"
| "exemplo_float CNaN = Some CNaN"
| "exemplo_float v = None"

definition exemplo_float64 :: "int coluna \<Rightarrow> erro + int coluna" where
  "exemplo_float64 c =
     (case those (map exemplo_float c) of
        None \<Rightarrow> Inl (ErroPandas (u ''float64''))
      | Some c' \<Rightarrow> Inr c')"

definition exemplo_pandas :: "int pandas" where
  "exemplo_pandas =
     \<lparr>astype_int64 = exemplo_int64, astype_float64 = exemplo_float64,
      str_float = (\<lambda>x. str_int x @ u ''.0'')\<rparr>"

text \<open>The text \<open>Senior<script>\<close> repeated and cut to 150 code points.\<close>

definition senior_script_150 :: ustr where
  "senior_script_150 = take 150 (concat (replicate 11 (u ''Senior<script>'')))"

definition exemplo_csv :: "int dataframe" where
  "exemplo_csv =
     [(u ''ano'', [CInt 2024, CInt 2025]),
      (u ''senioridade'', [CStr (u '' <senior>  ''), CNaN]),
      (u ''contrato'', [CStr (u ''integral''), CStr (u ''parcial'')]),
      (u ''tamanho_empresa'', [CStr (u ''M''), CStr (u ''L'')]),
      (u ''cargo'', [CStr senior_script_150, CStr (u ''Data Scientist'')]),
      (u ''usd'', [CInt 100000, CFloat 120000]),
      (u ''remoto'', [CStr (u ''remoto''), CBool True]),
      (u ''residencia_iso3'', [CStr (u ''BRA''), CInt 7])]"

definition exemplo_carregado :: "int dataframe" where
  "exemplo_carregado =
     [(u ''ano'', [CInt 2024, CInt 2025]),
      (u ''senioridade'', [CStr (u ''senior''), CStr (u ''nan'')]),
      (u ''contrato'', [CStr (u ''integral''), CStr (u ''parcial'')]),
      (u ''tamanho_empresa'', [CStr (u ''M''), CStr (u ''L'')]),
      (u ''cargo'',
         [CStr (concat (replicate 7 (u ''Seniorscript'')) @ u ''Se''),
          CStr (u ''Data Scientist'')]),
      (u ''usd'', [CFloat 100000, CFloat 120000]),
      (u ''remoto'', [CStr (u ''remoto''), CStr (u ''True'')]),
      (u ''residencia_iso3'', [CStr (u ''BRA''), CStr (u ''7'')])]"

text \<open>
  Rows with rational salaries and the exact mean, for the examples of the aggregates.
\<close>

definition media_exata :: "rat list \<Rightarrow> rat" where
  "media_exata xs = sum_list xs / of_nat (length xs)"

definition reg :: "int \<Rightarrow> string \<Rightarrow> string \<Rightarrow> rat \<Rightarrow> string \<Rightarrow> rat registro" where
  "reg a s c x r =
     \<lparr>ano = a, senioridade = u s, contrato = u ''FT'', tamanho_empresa = u ''M'', cargo = u c,
      usd = x, remoto = u ''remoto'', residencia_iso3 = u r\<rparr>"

definition cenario :: "rat registro list" where
  "cenario =
     [reg 2024 ''senior'' ''Data Scientist'' 100000 ''USA'',
      reg 2024 ''senior'' ''Data Scientist'' 120000 ''BRA'',
      reg 2024 ''senior'' ''Engineer'' 90000 ''USA'']"

definition doze :: "rat registro list" where
  "doze =
     [reg 2023 ''senior'' ''A'' 10 ''USA'',
      reg 2023 ''junior'' ''B'' 20 ''USA'',
      reg 2023 ''senior'' ''C'' 30 ''USA'',
      reg 2023 ''senior'' ''D'' 40 ''USA'',
      reg 2024 ''pleno'' ''E'' 50 ''BRA'',
      reg 2024 ''senior'' ''F'' 60 ''USA'',
      reg 2024 ''senior'' ''G'' 70 ''USA'',
      reg 2024 ''junior'' ''H'' 80 ''USA'',
      reg 2024 ''senior'' ''I'' 90 ''USA'',
      reg 2025 ''senior'' ''J'' 100 ''USA'',
      reg 2025 ''senior'' ''K'' 110 ''USA'',
      reg 2025 ''senior'' ''A'' 230 ''USA'']"

section \<open>Stripping\<close>






section \<open>The loader's two loops\<close>

lemma map_of_setitem: "map_of (setitem df k c) = (map_of df)(k \<mapsto> c)"
  by (simp add: setitem_def update_conv')

lemma getitem_Inr: "getitem df k = Inr c \<longleftrightarrow> map_of df k = Some c"
  by (simp add: getitem_def split: option.splits)

lemma sanitizar_texto_map_of:
  "sanitizar_texto P cols df = Inr df' \<Longrightarrow> distinct cols \<Longrightarrow>
   map_of df' k =
     (if k \<in> set cols then map_option (map (sanitizar_valor P)) (map_of df k) else map_of df k)"
proof (induction cols arbitrary: df)
  case Nil
  then show ?case by simp
next
  case (Cons col resto)
  from Cons.prems(1) obtain c where c: "map_of df col = Some c"
    and r: "sanitizar_texto P resto (setitem df col (map (sanitizar_valor P) c)) = Inr df'"
    by (auto simp: getitem_def split: option.splits)
  from Cons.prems(2) have d: "distinct resto" and n: "col \<notin> set resto" by simp_all
  show ?case
    using Cons.IH [OF r d] c n by (auto simp: map_of_setitem)
qed

lemma sanitizar_texto_cols:
  "sanitizar_texto P cols df = Inr df' \<Longrightarrow> k \<in> set cols \<Longrightarrow> map_of df k \<noteq> None"
proof (induction cols arbitrary: df)
  case Nil
  then show ?case by simp
next
  case (Cons col resto)
  from Cons.prems(1) obtain c where c: "map_of df col = Some c"
    and r: "sanitizar_texto P resto (setitem df col (map (sanitizar_valor P) c)) = Inr df'"
    by (auto simp: getitem_def split: option.splits)
  show ?case
  proof (cases "k = col")
    case True
    with c show ?thesis by simp
  next
    case False
    with Cons.prems(2) have "k \<in> set resto" by simp
    from Cons.IH [OF r this] False show ?thesis by (simp add: map_of_setitem)
  qed
qed

lemma converter_tipos_map_of:
  "converter_tipos P cs df = Inr df' \<Longrightarrow>
   map_of cs k = None \<or> map_of cs k = Some Object \<Longrightarrow> distinct (map fst cs) \<Longrightarrow>
   map_of df' k = map_of df k"
proof (induction cs arbitrary: df)
  case Nil
  then show ?case by simp
next
  case (Cons p resto)
  obtain coluna tipo where p: "p = (coluna, tipo)" by (cases p)
  from Cons.prems(1) p obtain c c' where c: "map_of df coluna = Some c"
    and a: "astype P tipo c = Inr c'"
    and r: "converter_tipos P resto (setitem df coluna c') = Inr df'"
    by (auto simp: getitem_def split: option.splits sum.splits)
  from Cons.prems(3) p have d: "distinct (map fst resto)" and n: "coluna \<notin> fst ` set resto"
    by simp_all
  show ?case
  proof (cases "k = coluna")
    case True
    with Cons.prems(2) p have "tipo = Object" by simp
    with a have cc: "c' = c" by (simp add: astype_def)
    from n True have "map_of resto k = None" by (simp add: map_of_eq_None_iff)
    from Cons.IH [OF r _ d] this have "map_of df' k = map_of (setitem df coluna c') k" by simp
    with True c cc show ?thesis by (simp add: map_of_setitem)
  next
    case False
    with Cons.prems(2) p have "map_of resto k = None \<or> map_of resto k = Some Object" by simp
    from Cons.IH [OF r this d] False show ?thesis by (simp add: map_of_setitem)
  qed
qed

lemma carregar_dados_Inr:
  assumes "carregar_dados P lido = Inr df'"
  obtains df df1 where "lido = Inr df"
    and "set (map fst COLUNAS_ESPERADAS) \<subseteq> set (map fst df)"
    and "converter_tipos P COLUNAS_ESPERADAS df = Inr df1"
    and "sanitizar_texto P colunas_texto df1 = Inr df'"
  using assms unfolding carregar_dados_def Let_def
  by (auto split: sum.splits if_splits)

lemma distinct_colunas_texto: "distinct colunas_texto"
  by (simp add: colunas_texto_def u_def)

lemma distinct_COLUNAS_ESPERADAS: "distinct (map fst COLUNAS_ESPERADAS)"
  by (simp add: COLUNAS_ESPERADAS_def u_def)

lemma colunas_texto_Object:
  "k \<in> set colunas_texto \<Longrightarrow> map_of COLUNAS_ESPERADAS k = Some Object"
  by (auto simp: colunas_texto_def COLUNAS_ESPERADAS_def u_def)

text \<open>What a successful load leaves in a text column.\<close>

lemma carregar_dados_texto:
  assumes ok: "carregar_dados P (Inr df) = Inr df'" and k: "k \<in> set colunas_texto"
  shows "\<exists>c. map_of df k = Some c \<and> map_of df' k = Some (map (sanitizar_valor P) c)"
proof -
  from ok obtain df1 where
        c: "converter_tipos P COLUNAS_ESPERADAS df = Inr df1"
    and s: "sanitizar_texto P colunas_texto df1 = Inr df'"
    by (auto elim: carregar_dados_Inr)
  have 1: "map_of df1 k = map_of df k"
    using converter_tipos_map_of [OF c _ distinct_COLUNAS_ESPERADAS] colunas_texto_Object [OF k]
    by simp
  have 2: "map_of df1 k \<noteq> None" using sanitizar_texto_cols [OF s k] .
  have 3: "map_of df' k = map_option (map (sanitizar_valor P)) (map_of df1 k)"
    using sanitizar_texto_map_of [OF s distinct_colunas_texto] k by simp
  from 1 2 3 show ?thesis by auto
qed

section \<open>The examples, evaluated\<close>

lemma replicate_11: "replicate 11 x = [x, x, x, x, x, x, x, x, x, x, x]"
  by (simp add: eval_nat_numeral)

lemma replicate_7: "replicate 7 x = [x, x, x, x, x, x, x]"
  by (simp add: eval_nat_numeral)

lemma senior_script_literal: "u ''Senior<script>'' = [83, 101, 110, 105, 111, 114, 60, 115, 99, 114, 105, 112, 116, 62]"
  by (simp add: u_def)

lemma length_senior_script_150: "length senior_script_150 = 150"
  by (simp add: senior_script_150_def replicate_11 senior_script_literal)

lemma sanitizar_valor_senior_script: "sanitizar_valor P (CStr senior_script_150) = CStr (concat (replicate 7 (u ''Seniorscript'')) @ u ''Se'')"
  by (simp add: senior_script_150_def replicate_11 replicate_7 sanitizar_valor_def str_strip_def str_replace_angulos_def str_slice_def isspace_def u_def)

lemma carregar_dados_exemplo: "carregar_dados exemplo_pandas (Inr exemplo_csv) = Inr exemplo_carregado"
  by (simp add: carregar_dados_def COLUNAS_ESPERADAS_def colunas_texto_def exemplo_csv_def
        exemplo_carregado_def getitem_def setitem_def astype_def exemplo_pandas_def
        exemplo_int64_def exemplo_float64_def senior_script_150_def replicate_11 sanitizar_valor_def str_strip_def
        str_replace_angulos_def str_slice_def isspace_def u_def str_int_def replicate_7)


text \<open>The loaded example, row by row.\<close>

lemma linhas_exemplo_carregado:
  "linhas exemplo_carregado =
     Some [\<lparr>ano = 2024, senioridade = u ''senior'', contrato = u ''integral'',
             tamanho_empresa = u ''M'',
             cargo = concat (replicate 7 (u ''Seniorscript'')) @ u ''Se'',
             usd = 100000, remoto = u ''remoto'', residencia_iso3 = u ''BRA''\<rparr>,
           \<lparr>ano = 2025, senioridade = u ''nan'', contrato = u ''parcial'',
             tamanho_empresa = u ''L'', cargo = u ''Data Scientist'',
             usd = 120000, remoto = u ''True'', residencia_iso3 = u ''7''\<rparr>]"
  by (simp add: linhas_def linha_def celula_def exemplo_carregado_def u_def upt_rec replicate_7)

section \<open>Properties of the loader\<close>






text \<open>
  Claim C8. When the parsed table lacks at least one of the eight expected columns, the
  loader halts with the error of line 48, which carries exactly the set of the expected
  columns that the table lacks, and it returns no table.
\<close>
theorem carregar_dados_colunas_ausentes:
  assumes "k \<in> set (map fst COLUNAS_ESPERADAS)" and "k \<notin> set (map fst df)"
  shows "length COLUNAS_ESPERADAS = 8 \<and>
         carregar_dados P (Inr df) =
           Inl (ValueError_colunas_ausentes
                 {c \<in> set (map fst COLUNAS_ESPERADAS). c \<notin> set (map fst df)}) \<and>
         (\<forall>df'. carregar_dados P (Inr df) \<noteq> Inr df')"
proof -
  have e: "{c \<in> set (map fst COLUNAS_ESPERADAS). c \<notin> set (map fst df)}
             = set (map fst COLUNAS_ESPERADAS) - set (map fst df)" by auto
  from assms have n: "set (map fst COLUNAS_ESPERADAS) - set (map fst df) \<noteq> {}" by auto
  have "carregar_dados P (Inr df) =
          Inl (ValueError_colunas_ausentes (set (map fst COLUNAS_ESPERADAS) - set (map fst df)))"
    using n by (simp add: carregar_dados_def Let_def)
  moreover have "length COLUNAS_ESPERADAS = 8" by (simp add: COLUNAS_ESPERADAS_def)
  ultimately show ?thesis unfolding e by simp
qed

theorem carregar_dados_colunas_ausentes_witness:
  "u ''ano'' \<in> set (map fst COLUNAS_ESPERADAS) \<and> u ''ano'' \<notin> set (map fst (tl exemplo_csv)) \<and>
   carregar_dados exemplo_pandas (Inr (tl exemplo_csv)) = Inl (ValueError_colunas_ausentes {u ''ano''})"
proof -
  have a: "u ''ano'' \<in> set (map fst COLUNAS_ESPERADAS)" by (simp add: COLUNAS_ESPERADAS_def)
  have b: "u ''ano'' \<notin> set (map fst (tl exemplo_csv))" by (simp add: exemplo_csv_def u_def)
  have c: "{c \<in> set (map fst COLUNAS_ESPERADAS). c \<notin> set (map fst (tl exemplo_csv))} = {u ''ano''}"
    by (auto simp: COLUNAS_ESPERADAS_def exemplo_csv_def u_def)
  from carregar_dados_colunas_ausentes [OF a b, of exemplo_pandas] a b show ?thesis
    unfolding c by simp
qed



text \<open>
  Claim C4. A string value of a text column comes out of the loader as the result of
  three steps in this order: the first 100 code points, then every less-than and
  greater-than sign removed, then the white space at both ends dropped. In particular
  \<open>Senior<script>\<close> repeated to 150 code points becomes seven times \<open>Seniorscript\<close>
  followed by \<open>Se\<close>: 86 code points, none of them an angle bracket.
\<close>
theorem sanitizar_tres_passos:
  assumes "carregar_dados P (Inr df) = Inr df'"
    and "col \<in> set colunas_texto"
    and "getitem df col = Inr c"
    and "i < length c"
    and "c ! i = CStr s"
  shows "(\<exists>c'. getitem df' col = Inr c' \<and> length c' = length c \<and>
            c' ! i = CStr (rev (dropWhile isspace (rev (dropWhile isspace
                       (filter (\<lambda>x. x \<noteq> 60 \<and> x \<noteq> 62) (take 100 s))))))) \<and>
         length senior_script_150 = 150 \<and>
         sanitizar_valor P (CStr senior_script_150)
           = CStr (concat (replicate 7 (u ''Seniorscript'')) @ u ''Se'') \<and>
         length (concat (replicate 7 (u ''Seniorscript'')) @ u ''Se'') = 86"
proof -
  from carregar_dados_texto [OF assms(1,2)] assms(3)
  have c': "getitem df' col = Inr (map (sanitizar_valor P) c)" by (auto simp: getitem_Inr)
  have "map (sanitizar_valor P) c ! i
          = CStr (rev (dropWhile isspace (rev (dropWhile isspace
                       (filter (\<lambda>x. x \<noteq> 60 \<and> x \<noteq> 62) (take 100 s))))))"
    using assms(4,5)
    by (simp add: sanitizar_valor_def str_strip_def str_replace_angulos_def str_slice_def)
  with c' have 1: "\<exists>c'. getitem df' col = Inr c' \<and> length c' = length c \<and>
            c' ! i = CStr (rev (dropWhile isspace (rev (dropWhile isspace
                       (filter (\<lambda>x. x \<noteq> 60 \<and> x \<noteq> 62) (take 100 s))))))"
    by simp
  have 2: "length (concat (replicate 7 (u ''Seniorscript'')) @ u ''Se'') = 86"
    by (simp add: replicate_7 u_def)
  from 1 length_senior_script_150 sanitizar_valor_senior_script 2 show ?thesis by blast
qed

theorem sanitizar_tres_passos_witness:
  "carregar_dados exemplo_pandas (Inr exemplo_csv) = Inr exemplo_carregado \<and>
   u ''cargo'' \<in> set colunas_texto \<and>
   getitem exemplo_csv (u ''cargo'') = Inr [CStr senior_script_150, CStr (u ''Data Scientist'')] \<and>
   (\<exists>c'. getitem exemplo_carregado (u ''cargo'') = Inr c' \<and>
      c' ! 0 = CStr (rev (dropWhile isspace (rev (dropWhile isspace
                       (filter (\<lambda>x. x \<noteq> 60 \<and> x \<noteq> 62) (take 100 senior_script_150)))))))"
proof -
  have k: "u ''cargo'' \<in> set colunas_texto" by (simp add: colunas_texto_def)
  have g: "getitem exemplo_csv (u ''cargo'') = Inr [CStr senior_script_150, CStr (u ''Data Scientist'')]"
    by (simp add: getitem_def exemplo_csv_def u_def)
  have i: "0 < length [CStr senior_script_150, CStr (u ''Data Scientist'') :: int cell]" by simp
  have v: "[CStr senior_script_150, CStr (u ''Data Scientist'') :: int cell] ! 0 = CStr senior_script_150"
    by simp
  from sanitizar_tres_passos [OF carregar_dados_exemplo k g i v] carregar_dados_exemplo k g show ?thesis by blast
qed

section \<open>Properties of the filter\<close>

text \<open>
  Claim C1. For every Dataset and every selection, the filtered view is a subsequence of
  the Dataset, and each of its records has its year, seniority, contract type and company
  size in the corresponding selection. No such record of the Dataset is left out.
\<close>
theorem df_filtrado_subsequencia:
  "subseq (df_filtrado df anos_sel senioridades_sel contratos_sel tamanhos_sel) df \<and>
   (\<forall>r \<in> set (df_filtrado df anos_sel senioridades_sel contratos_sel tamanhos_sel).
      ano r \<in> set anos_sel \<and> senioridade r \<in> set senioridades_sel \<and>
      contrato r \<in> set contratos_sel \<and> tamanho_empresa r \<in> set tamanhos_sel) \<and>
   (\<forall>r \<in> set df.
      ano r \<in> set anos_sel \<and> senioridade r \<in> set senioridades_sel \<and>
      contrato r \<in> set contratos_sel \<and> tamanho_empresa r \<in> set tamanhos_sel \<longrightarrow>
      r \<in> set (df_filtrado df anos_sel senioridades_sel contratos_sel tamanhos_sel))"
proof -
  let ?v = "df_filtrado df anos_sel senioridades_sel contratos_sel tamanhos_sel"
  have 1: "subseq ?v df" by (simp add: df_filtrado_def)
  have 2: "\<forall>r \<in> set ?v.
      ano r \<in> set anos_sel \<and> senioridade r \<in> set senioridades_sel \<and>
      contrato r \<in> set contratos_sel \<and> tamanho_empresa r \<in> set tamanhos_sel"
    by (simp add: df_filtrado_def isin_def)
  have 3: "\<forall>r \<in> set df.
      ano r \<in> set anos_sel \<and> senioridade r \<in> set senioridades_sel \<and>
      contrato r \<in> set contratos_sel \<and> tamanho_empresa r \<in> set tamanhos_sel \<longrightarrow>
      r \<in> set ?v"
    by (simp add: df_filtrado_def isin_def)
  from 1 2 3 show ?thesis by blast
qed

text \<open>
  Claim C5. When at least one of the four selections is empty, the filtered view is
  empty, whatever the other selections are.
\<close>
theorem df_filtrado_selecao_vazia:
  assumes "anos_sel = [] \<or> senioridades_sel = [] \<or> contratos_sel = [] \<or> tamanhos_sel = []"
  shows "df_filtrado df anos_sel senioridades_sel contratos_sel tamanhos_sel = []"
  using assms by (auto simp: df_filtrado_def isin_def)

text \<open>
  Claim C6. Filtering is idempotent: filtering the filtered view with the same selection
  gives the same view.
\<close>
theorem df_filtrado_idempotente:
  "df_filtrado (df_filtrado df anos_sel senioridades_sel contratos_sel tamanhos_sel)
      anos_sel senioridades_sel contratos_sel tamanhos_sel
   = df_filtrado df anos_sel senioridades_sel contratos_sel tamanhos_sel"
  by (simp add: df_filtrado_def)

section \<open>Properties of the aggregates\<close>

text \<open>
  Claim C3. On the empty view no aggregate raises: the mean salary, the maximum salary
  and the record count are 0, the most frequent role is the em dash, and the top-10 table,
  the table of work types and the table of means by country are not produced.
\<close>
theorem agregador_visao_vazia:
  "metricas mean [] = Inr \<lparr>salario_medio = 0, salario_max = 0, total = 0, cargo_freq = [8212]\<rparr> \<and>
   top_cargos mean [] = None \<and> remoto_contagem [] = None \<and> media_pais mean [] = None"
  by (simp add: metricas_def top_cargos_def remoto_contagem_def media_pais_def)

lemma map_fst_groupby_mean:
  "map fst (groupby_mean mean chave valor df) = sort (remdups (map chave df))"
  by (simp add: groupby_mean_def comp_def)

lemma set_groupby_mean:
  "set (groupby_mean mean chave valor df)
     = (\<lambda>k. (k, mean (map valor (filter (\<lambda>r. chave r = k) df)))) ` chave ` set df"
  by (simp add: groupby_mean_def)

lemma distinct_groupby_mean: "distinct (map fst (groupby_mean mean chave valor df))"
  by (simp add: map_fst_groupby_mean)













text \<open>
  Claim C9. The table by country is not produced when the view has no record whose role
  is \<open>Data Scientist\<close>. Otherwise it has one row for each country of such a record, and
  no other, each with the mean of the salaries of the view's records with that role and
  that country. On the three-record scenario, filtered with nothing excluded, it is
  \<open>BRA\<close> with 120000 and \<open>USA\<close> with 100000.
\<close>
theorem media_pais_cientista_de_dados:
  "(filter (\<lambda>r. cargo r = u ''Data Scientist'') df = [] \<longrightarrow> media_pais mean df = None) \<and>
   (filter (\<lambda>r. cargo r = u ''Data Scientist'') df \<noteq> [] \<longrightarrow>
      (\<exists>t. media_pais mean df = Some t \<and>
           distinct (map fst t) \<and> sorted (map fst t) \<and>
           fst ` set t = residencia_iso3 ` {r \<in> set df. cargo r = u ''Data Scientist''} \<and>
           (\<forall>(p, m) \<in> set t.
              m = mean (map usd (filter (\<lambda>r. cargo r = u ''Data Scientist'' \<and>
                                             residencia_iso3 r = p) df))))) \<and>
   media_pais media_exata (df_filtrado cenario [2024] [u ''senior''] [u ''FT''] [u ''M''])
     = Some [(u ''BRA'', 120000), (u ''USA'', 100000)] \<and>
   map_option map_of
       (media_pais media_exata (df_filtrado cenario [2024] [u ''senior''] [u ''FT''] [u ''M'']))
     = Some [u ''USA'' \<mapsto> 100000, u ''BRA'' \<mapsto> 120000]"
proof -
  let ?ds = "filter (\<lambda>r. cargo r = u ''Data Scientist'') df"
  let ?t = "groupby_mean mean residencia_iso3 usd ?ds"
  have a: "?ds = [] \<longrightarrow> media_pais mean df = None" by (simp add: media_pais_def)
  have b: "?ds \<noteq> [] \<longrightarrow>
      (\<exists>t. media_pais mean df = Some t \<and>
           distinct (map fst t) \<and> sorted (map fst t) \<and>
           fst ` set t = residencia_iso3 ` {r \<in> set df. cargo r = u ''Data Scientist''} \<and>
           (\<forall>(p, m) \<in> set t.
              m = mean (map usd (filter (\<lambda>r. cargo r = u ''Data Scientist'' \<and>
                                             residencia_iso3 r = p) df))))"
  proof
    assume n: "?ds \<noteq> []"
    then have t: "media_pais mean df = Some ?t" by (simp add: media_pais_def)
    have 1: "distinct (map fst ?t)" by (rule distinct_groupby_mean)
    have 2: "sorted (map fst ?t)" by (simp add: map_fst_groupby_mean)
    have "set (map fst ?t) = residencia_iso3 ` set ?ds" by (simp add: map_fst_groupby_mean)
    then have 3: "fst ` set ?t = residencia_iso3 ` {r \<in> set df. cargo r = u ''Data Scientist''}"
      by simp
    have f: "\<And>p. filter (\<lambda>r. residencia_iso3 r = p) ?ds
                 = filter (\<lambda>r. cargo r = u ''Data Scientist'' \<and> residencia_iso3 r = p) df"
      by (simp add: conj_commute)
    have 4: "\<forall>(p, m) \<in> set ?t.
              m = mean (map usd (filter (\<lambda>r. cargo r = u ''Data Scientist'' \<and>
                                             residencia_iso3 r = p) df))"
      unfolding set_groupby_mean f by auto
    from t 1 2 3 4 show "\<exists>t. media_pais mean df = Some t \<and>
           distinct (map fst t) \<and> sorted (map fst t) \<and>
           fst ` set t = residencia_iso3 ` {r \<in> set df. cargo r = u ''Data Scientist''} \<and>
           (\<forall>(p, m) \<in> set t.
              m = mean (map usd (filter (\<lambda>r. cargo r = u ''Data Scientist'' \<and>
                                             residencia_iso3 r = p) df)))"
      by blast
  qed
  have v: "df_filtrado cenario [2024] [u ''senior''] [u ''FT''] [u ''M''] = cenario"
    by (simp add: df_filtrado_def isin_def cenario_def reg_def)
  have c: "media_pais media_exata cenario = Some [(u ''BRA'', 120000), (u ''USA'', 100000)]"
    by (simp add: media_pais_def groupby_mean_def cenario_def reg_def media_exata_def u_def)
  have d: "map_option map_of (media_pais media_exata cenario)
             = Some [u ''USA'' \<mapsto> 100000, u ''BRA'' \<mapsto> 120000]"
    unfolding c by simp
  from a b c d show ?thesis unfolding v by blast
qed

theorem media_pais_cientista_de_dados_witness:
  "filter (\<lambda>r. cargo r = u ''Data Scientist'') cenario \<noteq> [] \<and>
   (\<exists>t. media_pais media_exata cenario = Some t \<and>
        distinct (map fst t) \<and> sorted (map fst t) \<and>
        fst ` set t = residencia_iso3 ` {r \<in> set cenario. cargo r = u ''Data Scientist''} \<and>
        (\<forall>(p, m) \<in> set t.
           m = media_exata (map usd (filter (\<lambda>r. cargo r = u ''Data Scientist'' \<and>
                                               residencia_iso3 r = p) cenario))))"
proof -
  have n: "filter (\<lambda>r. cargo r = u ''Data Scientist'') cenario \<noteq> []"
    by (simp add: cenario_def reg_def)
  from media_pais_cientista_de_dados [of cenario media_exata] n show ?thesis by blast
qed

theorem df_filtrado_subsequencia_witness:
  "df_filtrado doze [2024] [u ''senior'', u ''junior''] [u ''FT''] [u ''M'']
     = [reg 2024 ''senior'' ''F'' 60 ''USA'', reg 2024 ''senior'' ''G'' 70 ''USA'',
        reg 2024 ''junior'' ''H'' 80 ''USA'', reg 2024 ''senior'' ''I'' 90 ''USA''] \<and>
   subseq (df_filtrado doze [2024] [u ''senior'', u ''junior''] [u ''FT''] [u ''M'']) doze \<and>
   list_all (\<lambda>r. ano r \<in> set [2024] \<and> senioridade r \<in> set [u ''senior'', u ''junior''] \<and>
                  contrato r \<in> set [u ''FT''] \<and> tamanho_empresa r \<in> set [u ''M''])
     (df_filtrado doze [2024] [u ''senior'', u ''junior''] [u ''FT''] [u ''M''])"
proof -
  have e: "df_filtrado doze [2024] [u ''senior'', u ''junior''] [u ''FT''] [u ''M'']
     = [reg 2024 ''senior'' ''F'' 60 ''USA'', reg 2024 ''senior'' ''G'' 70 ''USA'',
        reg 2024 ''junior'' ''H'' 80 ''USA'', reg 2024 ''senior'' ''I'' 90 ''USA'']"
    by (simp add: df_filtrado_def isin_def doze_def reg_def u_def)
  from df_filtrado_subsequencia [of doze "[2024]" "[u ''senior'', u ''junior'']" "[u ''FT'']" "[u ''M'']"]
  have "subseq (df_filtrado doze [2024] [u ''senior'', u ''junior''] [u ''FT''] [u ''M'']) doze \<and>
        list_all (\<lambda>r. ano r \<in> set [2024] \<and> senioridade r \<in> set [u ''senior'', u ''junior''] \<and>
                  contrato r \<in> set [u ''FT''] \<and> tamanho_empresa r \<in> set [u ''M''])
          (df_filtrado doze [2024] [u ''senior'', u ''junior''] [u ''FT''] [u ''M''])"
    unfolding list_all_iff by blast
  with e show ?thesis by blast
qed

theorem df_filtrado_selecao_vazia_witness:
  "df_filtrado doze [2023, 2024, 2025] [] [u ''FT''] [u ''M''] = []"
proof -
  have h: "[2023, 2024, 2025 :: int] = [] \<or> ([] :: ustr list) = [] \<or> [u ''FT''] = [] \<or> [u ''M''] = []"
    by simp
  from df_filtrado_selecao_vazia [OF h] show ?thesis .
qed



end
